theory Spec2Isabelle
  imports Main
begin

section \<open>The responsive breakpoint hook (src/hooks/useResponsive.ts)\<close>

text \<open>
  The hook keeps one piece of state, the window dimensions, and derives from it four
  boolean flags, a named breakpoint and three threshold queries. Widths, heights and
  numeric breakpoint arguments are modelled as \<open>int\<close>: \<open>window.innerWidth\<close> and
  \<open>window.innerHeight\<close> are integers, and the queries are specified for integer
  arguments.
\<close>

subsection \<open>Breakpoint table\<close>

datatype BreakpointName = mobile | tablet | desktop | wide

text \<open>The constant object \<open>BREAKPOINTS\<close>, as a lookup by key.\<close>

primrec BREAKPOINTS :: "BreakpointName \<Rightarrow> int" where
  "BREAKPOINTS mobile = 768"
| "BREAKPOINTS tablet = 1024"
| "BREAKPOINTS desktop = 1280"
| "BREAKPOINTS wide = 1536"

text \<open>Position of a key in \<open>BREAKPOINTS\<close>: the tier order mobile, tablet, desktop, wide.\<close>

primrec tier_index :: "BreakpointName \<Rightarrow> nat" where
  "tier_index mobile = 0"
| "tier_index tablet = 1"
| "tier_index desktop = 2"
| "tier_index wide = 3"

text \<open>The argument type \<open>BreakpointName | number\<close> of the query functions.\<close>

datatype BreakpointArg = Name BreakpointName | Number int

text \<open>\<open>getBreakpointValue\<close>: a number passes through, a name is looked up.\<close>

primrec getBreakpointValue :: "BreakpointArg \<Rightarrow> int" where
  "getBreakpointValue (Number n) = n"
| "getBreakpointValue (Name b) = BREAKPOINTS b"

subsection \<open>State and return value of the hook\<close>

text \<open>The object held by \<open>useState\<close>.\<close>

record Dimensions =
  width :: int
  height :: int

text \<open>
  \<open>UseResponsiveReturn\<close>: the two dimensions, the four flags, the three query
  functions and the current breakpoint.
\<close>

record UseResponsiveReturn = Dimensions +
  isMobile :: bool
  isTablet :: bool
  isDesktop :: bool
  isWide :: bool
  isBelow :: "BreakpointArg \<Rightarrow> bool"
  isAbove :: "BreakpointArg \<Rightarrow> bool"
  isBetween :: "BreakpointArg \<Rightarrow> BreakpointArg \<Rightarrow> bool"
  breakpoint :: BreakpointName

text \<open>
  What one render of \<open>useResponsive\<close> returns when the state cell holds
  \<open>dimensions\<close>. Every field is computed as in the body of the hook; the memoisation
  (\<open>useMemo\<close>, \<open>useCallback\<close> keyed on \<open>dimensions.width\<close>) does not change the
  values.
\<close>

definition useResponsive :: "Dimensions \<Rightarrow> UseResponsiveReturn" where
  "useResponsive dimensions =
     \<lparr> width = width dimensions,
       height = height dimensions,
       isMobile = (width dimensions < BREAKPOINTS mobile),
       isTablet = (width dimensions \<ge> BREAKPOINTS mobile \<and> width dimensions < BREAKPOINTS tablet),
       isDesktop = (width dimensions \<ge> BREAKPOINTS tablet \<and> width dimensions < BREAKPOINTS desktop),
       isWide = (width dimensions \<ge> BREAKPOINTS desktop),
       isBelow = (\<lambda>b. width dimensions < getBreakpointValue b),
       isAbove = (\<lambda>b. width dimensions \<ge> getBreakpointValue b),
       isBetween = (\<lambda>min max.
          let minValue = getBreakpointValue min;
              maxValue = getBreakpointValue max
          in width dimensions \<ge> minValue \<and> width dimensions < maxValue),
       breakpoint =
         (if width dimensions < BREAKPOINTS mobile then mobile
          else if width dimensions < BREAKPOINTS tablet then tablet
          else if width dimensions < BREAKPOINTS desktop then desktop
          else wide) \<rparr>"

subsection \<open>Life cycle of the hook\<close>

text \<open>
  The hook talks to two things: the browser window (its size and its list of
  \<open>resize\<close> listeners) and the React cells behind \<open>useState\<close>, \<open>useCallback\<close>
  and \<open>useEffect\<close>. Both are made explicit state.

  A listener is identified by the function object that was registered. \<open>Closure n\<close>
  is the arrow function \<open>() => setDimensions(...)\<close> created by render number \<open>n\<close>
  of this hook; \<open>Foreign k\<close> is a listener registered by other code.
\<close>

datatype listener = Closure nat | Foreign nat

record Window =
  innerWidth :: int
  innerHeight :: int
  resizeListeners :: "listener list"

text \<open>
  \<open>window.addEventListener('resize', l)\<close>: a listener that is already registered is
  not added again. \<open>window.removeEventListener('resize', l)\<close> removes the entry.
\<close>

definition addEventListener :: "listener \<Rightarrow> Window \<Rightarrow> Window" where
  "addEventListener l win =
     (if l \<in> set (resizeListeners win) then win
      else win\<lparr>resizeListeners := resizeListeners win @ [l]\<rparr>)"

definition removeEventListener :: "listener \<Rightarrow> Window \<Rightarrow> Window" where
  "removeEventListener l win = win\<lparr>resizeListeners := remove1 l (resizeListeners win)\<rparr>"

text \<open>
  The cells of one mounted instance of the hook: the \<open>useState\<close> cell, the
  \<open>useCallback\<close> cell holding the memoised \<open>handleResize\<close> (its dependency list is
  empty, so it is filled once), the dependency \<open>[handleResize]\<close> of the effect whose
  cleanup is pending, the number of renders so far, and whether the instance is still
  mounted.
\<close>

record Fiber =
  dimensions :: Dimensions
  handleResizeMemo :: "listener option"
  effectDeps :: "listener option"
  renderCount :: nat
  alive :: bool

text \<open>Calls the hook makes on the window, in order.\<close>

datatype call = AddEventListener listener | RemoveEventListener listener

record World =
  window :: Window
  fiber :: Fiber
  calls :: "call list"

text \<open>\<open>useState({ width: 0, height: 0 })\<close> and empty cells, before the first render.\<close>

definition initial :: "Window \<Rightarrow> World" where
  "initial win =
     \<lparr> window = win,
       fiber = \<lparr> dimensions = \<lparr> width = 0, height = 0 \<rparr>,
                 handleResizeMemo = None, effectDeps = None,
                 renderCount = 0, alive = True \<rparr>,
       calls = [] \<rparr>"

text \<open>The state setter; React drops an update to an instance that is unmounted.\<close>

definition setDimensions :: "Dimensions \<Rightarrow> Fiber \<Rightarrow> Fiber" where
  "setDimensions v f = (if alive f then f\<lparr>dimensions := v\<rparr> else f)"

definition handleResize :: "World \<Rightarrow> World" where
  "handleResize s =
     s\<lparr>fiber := setDimensions
          \<lparr> width = innerWidth (window s), height = innerHeight (window s) \<rparr> (fiber s)\<rparr>"

text \<open>The body of the effect, and the cleanup function it returns.\<close>

definition effect :: "listener \<Rightarrow> World \<Rightarrow> World" where
  "effect hr s =
     (let s1 = handleResize s
      in s1\<lparr>window := addEventListener hr (window s1),
            calls := calls s1 @ [AddEventListener hr]\<rparr>)"

definition cleanup :: "listener \<Rightarrow> World \<Rightarrow> World" where
  "cleanup hr s =
     s\<lparr>window := removeEventListener hr (window s),
       calls := calls s @ [RemoveEventListener hr]\<rparr>"

text \<open>
  One render of the hook followed by the commit of its effect. \<open>useCallback\<close> with
  an empty dependency list returns the memoised function when there is one and the
  function of this render otherwise. \<open>useEffect\<close> runs the effect on the first commit
  and whenever \<open>handleResize\<close> differs from the dependency of the last run, after the
  pending cleanup.
\<close>

definition render :: "World \<Rightarrow> World" where
  "render s =
     (if \<not> alive (fiber s) then s
      else
        let f = fiber s;
            hr = (case handleResizeMemo f of
                    None \<Rightarrow> Closure (renderCount f)
                  | Some c \<Rightarrow> c);
            s1 = s\<lparr>fiber := f\<lparr>handleResizeMemo := Some hr,
                                renderCount := Suc (renderCount f)\<rparr>\<rparr>
        in case effectDeps f of
             None \<Rightarrow>
               (let s2 = effect hr s1 in s2\<lparr>fiber := (fiber s2)\<lparr>effectDeps := Some hr\<rparr>\<rparr>)
           | Some dep \<Rightarrow>
               if dep = hr then s1
               else (let s2 = effect hr (cleanup dep s1)
                     in s2\<lparr>fiber := (fiber s2)\<lparr>effectDeps := Some hr\<rparr>\<rparr>))"

text \<open>Unmounting runs the pending cleanup and discards the instance.\<close>

definition unmount :: "World \<Rightarrow> World" where
  "unmount s =
     (if \<not> alive (fiber s) then s
      else
        let s1 = (case effectDeps (fiber s) of
                    None \<Rightarrow> s
                  | Some dep \<Rightarrow> cleanup dep s)
        in s1\<lparr>fiber := (fiber s1)\<lparr>effectDeps := None, alive := False\<rparr>\<rparr>)"

text \<open>
  A \<open>resize\<close> event: the window has its new size and every registered listener is
  called in turn. Every closure of the hook is a \<open>handleResize\<close>; a foreign listener
  does not touch the hook.
\<close>

primrec invoke :: "listener \<Rightarrow> World \<Rightarrow> World" where
  "invoke (Closure n) s = handleResize s"
| "invoke (Foreign k) s = s"

definition resize :: "int \<Rightarrow> int \<Rightarrow> World \<Rightarrow> World" where
  "resize nw nh s =
     (let s1 = s\<lparr>window := (window s)\<lparr>innerWidth := nw, innerHeight := nh\<rparr>\<rparr>
      in fold invoke (resizeListeners (window s1)) s1)"

datatype event = Render | Resize int int | Unmount

primrec step :: "event \<Rightarrow> World \<Rightarrow> World" where
  "step Render s = render s"
| "step (Resize nw nh) s = resize nw nh s"
| "step Unmount s = unmount s"

definition run :: "event list \<Rightarrow> World \<Rightarrow> World" where
  "run evs s = fold step evs s"

text \<open>What a render returns in a given state of the world.\<close>

definition current :: "World \<Rightarrow> UseResponsiveReturn" where
  "current s = useResponsive (dimensions (fiber s))"

text \<open>
  The state of the world between the first commit and the unmount: the instance is
  mounted, the memoised \<open>handleResize\<close> is the function of the first render, the
  effect has run with it and it is registered on the window.
\<close>

definition live :: "World \<Rightarrow> bool" where
  "live s \<longleftrightarrow>
     alive (fiber s) \<and> handleResizeMemo (fiber s) = Some (Closure 0)
     \<and> effectDeps (fiber s) = Some (Closure 0)
     \<and> Closure 0 \<in> set (resizeListeners (window s))"

section \<open>Derived facts: flags, breakpoint and queries\<close>

text \<open>
  C1. For every width exactly one of \<open>isMobile\<close>, \<open>isTablet\<close>, \<open>isDesktop\<close>,
  \<open>isWide\<close> is true, and it is the flag named by \<open>breakpoint\<close>. The flags are also
  the queries \<open>isBelow(mobile)\<close>, \<open>isBetween(mobile, tablet)\<close>,
  \<open>isBetween(tablet, desktop)\<close> and \<open>isAbove(desktop)\<close>.
\<close>

theorem flags_partition:
  "length (filter id [isMobile (useResponsive d), isTablet (useResponsive d),
                      isDesktop (useResponsive d), isWide (useResponsive d)]) = 1
   \<and> isMobile (useResponsive d) = (breakpoint (useResponsive d) = mobile)
   \<and> isTablet (useResponsive d) = (breakpoint (useResponsive d) = tablet)
   \<and> isDesktop (useResponsive d) = (breakpoint (useResponsive d) = desktop)
   \<and> isWide (useResponsive d) = (breakpoint (useResponsive d) = wide)
   \<and> isMobile (useResponsive d) = isBelow (useResponsive d) (Name mobile)
   \<and> isTablet (useResponsive d) = isBetween (useResponsive d) (Name mobile) (Name tablet)
   \<and> isDesktop (useResponsive d) = isBetween (useResponsive d) (Name tablet) (Name desktop)
   \<and> isWide (useResponsive d) = isAbove (useResponsive d) (Name desktop)"
  by (simp add: useResponsive_def)

text \<open>
  C2. The tiers are half-open on the lower end: 767 is mobile, 768 tablet, 1023 tablet,
  1024 desktop, 1279 desktop, 1280 wide. In general the width one below the threshold
  of \<open>b\<close> is in tier \<open>b\<close>, and the width equal to the threshold of \<open>b\<close> is in the
  next tier (for \<open>wide\<close>, the last tier, it stays wide).
\<close>

theorem breakpoint_boundaries:
  "breakpoint (useResponsive \<lparr>width = 767, height = h\<rparr>) = mobile
   \<and> breakpoint (useResponsive \<lparr>width = 768, height = h\<rparr>) = tablet
   \<and> breakpoint (useResponsive \<lparr>width = 1023, height = h\<rparr>) = tablet
   \<and> breakpoint (useResponsive \<lparr>width = 1024, height = h\<rparr>) = desktop
   \<and> breakpoint (useResponsive \<lparr>width = 1279, height = h\<rparr>) = desktop
   \<and> breakpoint (useResponsive \<lparr>width = 1280, height = h\<rparr>) = wide
   \<and> breakpoint (useResponsive \<lparr>width = BREAKPOINTS b - 1, height = h\<rparr>) = b
   \<and> tier_index (breakpoint (useResponsive \<lparr>width = BREAKPOINTS b, height = h\<rparr>))
       = min 3 (Suc (tier_index b))"
  by (cases b) (simp_all add: useResponsive_def)

text \<open>
  C3. \<open>isBelow(b)\<close> is \<open>width < resolve(b)\<close>, \<open>isAbove(b)\<close> is
  \<open>width \<ge> resolve(b)\<close>, and each is the negation of the other, for every name or
  integer \<open>b\<close> and every width.
\<close>

theorem isBelow_isAbove_complement:
  "isAbove (useResponsive d) b = (\<not> isBelow (useResponsive d) b)
   \<and> isBelow (useResponsive d) b = (width d < getBreakpointValue b)
   \<and> isAbove (useResponsive d) b = (width d \<ge> getBreakpointValue b)"
  by (auto simp add: useResponsive_def)

text \<open>
  C4. \<open>isBetween(min, max)\<close> is \<open>resolve(min) \<le> width < resolve(max)\<close>, where a
  number resolves to itself and a name to its entry in \<open>BREAKPOINTS\<close>. It is a total
  function with no error result and no check of its arguments; when
  \<open>resolve(min) \<ge> resolve(max)\<close> it is false at every width.
\<close>

theorem isBetween_range:
  "isBetween (useResponsive d) (Number m) (Number n) = (m \<le> width d \<and> width d < n)
   \<and> isBetween (useResponsive d) (Name a) (Number n) = (BREAKPOINTS a \<le> width d \<and> width d < n)
   \<and> isBetween (useResponsive d) (Number m) (Name b) = (m \<le> width d \<and> width d < BREAKPOINTS b)
   \<and> isBetween (useResponsive d) (Name a) (Name b)
       = (BREAKPOINTS a \<le> width d \<and> width d < BREAKPOINTS b)
   \<and> (n \<le> m \<longrightarrow> \<not> isBetween (useResponsive d) (Number m) (Number n))
   \<and> (n \<le> BREAKPOINTS a \<longrightarrow> \<not> isBetween (useResponsive d) (Name a) (Number n))
   \<and> (BREAKPOINTS b \<le> m \<longrightarrow> \<not> isBetween (useResponsive d) (Number m) (Name b))
   \<and> (BREAKPOINTS b \<le> BREAKPOINTS a \<longrightarrow> \<not> isBetween (useResponsive d) (Name a) (Name b))
   \<and> isBetween (useResponsive d) lo hi
       = (getBreakpointValue lo \<le> width d \<and> width d < getBreakpointValue hi)
   \<and> (getBreakpointValue lo \<ge> getBreakpointValue hi
        \<longrightarrow> \<not> isBetween (useResponsive d) lo hi)"
  by (auto simp add: useResponsive_def)

theorem isBetween_range_witness:
  "(1000::int) \<le> 1100
   \<and> \<not> isBetween (useResponsive \<lparr>width = 1050, height = 700\<rparr>) (Number 1100) (Number 1000)
   \<and> (1000::int) \<le> BREAKPOINTS desktop
   \<and> \<not> isBetween (useResponsive \<lparr>width = 1050, height = 700\<rparr>) (Name desktop) (Number 1000)
   \<and> BREAKPOINTS mobile \<le> (2000::int)
   \<and> \<not> isBetween (useResponsive \<lparr>width = 1050, height = 700\<rparr>) (Number 2000) (Name mobile)
   \<and> BREAKPOINTS tablet \<le> BREAKPOINTS desktop
   \<and> \<not> isBetween (useResponsive \<lparr>width = 1050, height = 700\<rparr>) (Name desktop) (Name tablet)
   \<and> getBreakpointValue (Name mobile) \<ge> getBreakpointValue (Name mobile)
   \<and> \<not> isBetween (useResponsive \<lparr>width = 1050, height = 700\<rparr>) (Name mobile) (Name mobile)
   \<and> isBetween (useResponsive \<lparr>width = 1050, height = 700\<rparr>) (Number 1050) (Number 1051)
   \<and> isBetween (useResponsive \<lparr>width = 1050, height = 700\<rparr>) (Name tablet) (Number 1051)
   \<and> isBetween (useResponsive \<lparr>width = 1050, height = 700\<rparr>) (Number 1050) (Name desktop)
   \<and> isBetween (useResponsive \<lparr>width = 1050, height = 700\<rparr>) (Name tablet) (Name desktop)"
  using isBetween_range [of "\<lparr>width = 1050, height = 700\<rparr>" 1100 1000 desktop tablet
      "Name mobile" "Name mobile"]
    isBetween_range [of "\<lparr>width = 1050, height = 700\<rparr>" 1050 1051 tablet desktop
      "Name tablet" "Name desktop"]
    isBetween_range [of "\<lparr>width = 1050, height = 700\<rparr>" 2000 1000 desktop mobile
      "Name tablet" "Name desktop"]
  by simp

text \<open>
  C5. \<open>breakpoint\<close> is monotone: a wider viewport is never in a lower tier, in the
  order mobile, tablet, desktop, wide (which is also the order of the thresholds).
\<close>

theorem breakpoint_monotone:
  assumes "width d1 \<le> width d2"
  shows "tier_index (breakpoint (useResponsive d1)) \<le> tier_index (breakpoint (useResponsive d2))
       \<and> BREAKPOINTS (breakpoint (useResponsive d1)) \<le> BREAKPOINTS (breakpoint (useResponsive d2))"
  using assms by (simp add: useResponsive_def)

theorem breakpoint_monotone_witness:
  "width \<lparr>width = 800, height = 600\<rparr> \<le> width \<lparr>width = 1300, height = 20\<rparr>
   \<and> tier_index (breakpoint (useResponsive \<lparr>width = 800, height = 600\<rparr>))
       \<le> tier_index (breakpoint (useResponsive \<lparr>width = 1300, height = 20\<rparr>))
   \<and> breakpoint (useResponsive \<lparr>width = 800, height = 600\<rparr>) = tablet
   \<and> breakpoint (useResponsive \<lparr>width = 1300, height = 20\<rparr>) = wide"
  using breakpoint_monotone [of "\<lparr>width = 800, height = 600\<rparr>" "\<lparr>width = 1300, height = 20\<rparr>"]
  by (simp add: useResponsive_def)

text \<open>
  C9. The breakpoint, the four flags and the three queries depend on the width only: two
  states of equal width give the same outputs, whatever their heights.
\<close>

theorem outputs_depend_on_width_only:
  assumes "width d1 = width d2"
  shows "breakpoint (useResponsive d1) = breakpoint (useResponsive d2)
       \<and> isMobile (useResponsive d1) = isMobile (useResponsive d2)
       \<and> isTablet (useResponsive d1) = isTablet (useResponsive d2)
       \<and> isDesktop (useResponsive d1) = isDesktop (useResponsive d2)
       \<and> isWide (useResponsive d1) = isWide (useResponsive d2)
       \<and> isBelow (useResponsive d1) = isBelow (useResponsive d2)
       \<and> isAbove (useResponsive d1) = isAbove (useResponsive d2)
       \<and> isBetween (useResponsive d1) = isBetween (useResponsive d2)"
  using assms by (simp add: useResponsive_def)

theorem outputs_depend_on_width_only_witness:
  "width \<lparr>width = 800, height = 600\<rparr> = width \<lparr>width = 800, height = 1\<rparr>
   \<and> height \<lparr>width = 800, height = 600\<rparr> \<noteq> height \<lparr>width = 800, height = 1\<rparr>
   \<and> breakpoint (useResponsive \<lparr>width = 800, height = 600\<rparr>)
       = breakpoint (useResponsive \<lparr>width = 800, height = 1\<rparr>)
   \<and> isBelow (useResponsive \<lparr>width = 800, height = 600\<rparr>)
       = isBelow (useResponsive \<lparr>width = 800, height = 1\<rparr>)
   \<and> isBetween (useResponsive \<lparr>width = 800, height = 600\<rparr>)
       = isBetween (useResponsive \<lparr>width = 800, height = 1\<rparr>)"
  using outputs_depend_on_width_only [of "\<lparr>width = 800, height = 600\<rparr>" "\<lparr>width = 800, height = 1\<rparr>"]
  by simp

text \<open>
  C10. Before the first measurement the state cell holds 0 by 0. A render in that state
  reports \<open>mobile\<close>, \<open>isMobile\<close> and \<open>isBelow(b)\<close> for every name \<open>b\<close>, and every
  output is the one of a viewport whose width really is 0: the return type has no value
  for "not measured".
\<close>

theorem sentinel_is_mobile:
  "dimensions (fiber (initial win)) = \<lparr>width = 0, height = 0\<rparr>
   \<and> breakpoint (current (initial win)) = mobile
   \<and> isMobile (current (initial win))
   \<and> \<not> isTablet (current (initial win))
   \<and> \<not> isDesktop (current (initial win))
   \<and> \<not> isWide (current (initial win))
   \<and> isBelow (current (initial win)) (Name b)
   \<and> breakpoint (current (initial win)) = breakpoint (useResponsive \<lparr>width = 0, height = h\<rparr>)
   \<and> isMobile (current (initial win)) = isMobile (useResponsive \<lparr>width = 0, height = h\<rparr>)
   \<and> isTablet (current (initial win)) = isTablet (useResponsive \<lparr>width = 0, height = h\<rparr>)
   \<and> isDesktop (current (initial win)) = isDesktop (useResponsive \<lparr>width = 0, height = h\<rparr>)
   \<and> isWide (current (initial win)) = isWide (useResponsive \<lparr>width = 0, height = h\<rparr>)
   \<and> isBelow (current (initial win)) = isBelow (useResponsive \<lparr>width = 0, height = h\<rparr>)
   \<and> isAbove (current (initial win)) = isAbove (useResponsive \<lparr>width = 0, height = h\<rparr>)
   \<and> isBetween (current (initial win)) = isBetween (useResponsive \<lparr>width = 0, height = h\<rparr>)"
  by (cases b) (simp_all add: current_def initial_def useResponsive_def)

section \<open>Life cycle: measurement, subscription, resize, teardown\<close>

lemma handleResize_idem: "handleResize (handleResize s) = handleResize s"
  by (simp add: handleResize_def setDimensions_def)

lemma fold_invoke:
  "fold invoke ls s = (if (\<exists>n. Closure n \<in> set ls) then handleResize s else s)"
proof (induction ls arbitrary: s)
  case Nil
  show ?case by simp
next
  case (Cons l ls)
  show ?case
  proof (cases l)
    case (Closure n)
    then show ?thesis using Cons.IH [of "handleResize s"]
      by (auto simp add: handleResize_idem)
  next
    case (Foreign k)
    then show ?thesis using Cons.IH [of s] by auto
  qed
qed

lemma resize_live:
  assumes "live s"
  shows "resize nw nh s =
           s\<lparr>window := (window s)\<lparr>innerWidth := nw, innerHeight := nh\<rparr>,
             fiber := (fiber s)\<lparr>dimensions := \<lparr>width = nw, height = nh\<rparr>\<rparr>\<rparr>"
proof -
  from assms have "\<exists>n. Closure n \<in> set (resizeListeners (window s))"
    unfolding live_def by blast
  with assms show ?thesis
    by (simp add: resize_def Let_def fold_invoke handleResize_def setDimensions_def live_def)
qed

lemma render_live:
  assumes "live s"
  shows "render s = s\<lparr>fiber := (fiber s)\<lparr>renderCount := Suc (renderCount (fiber s))\<rparr>\<rparr>"
  using assms by (simp add: render_def Let_def live_def)

lemma render_initial:
  "render (initial win) =
     \<lparr> window = addEventListener (Closure 0) win,
       fiber = \<lparr> dimensions = \<lparr> width = innerWidth win, height = innerHeight win \<rparr>,
                 handleResizeMemo = Some (Closure 0), effectDeps = Some (Closure 0),
                 renderCount = Suc 0, alive = True \<rparr>,
       calls = [AddEventListener (Closure 0)] \<rparr>"
  by (simp add: render_def Let_def initial_def effect_def handleResize_def setDimensions_def)

lemma live_render_initial: "live (render (initial win))"
  by (simp add: render_initial live_def addEventListener_def)

lemma step_live:
  assumes "live s" "ev \<noteq> Unmount"
  shows "live (step ev s) \<and> calls (step ev s) = calls s
       \<and> resizeListeners (window (step ev s)) = resizeListeners (window s)"
proof (cases ev)
  case Render
  with assms show ?thesis by (simp add: render_live) (simp add: live_def)
next
  case (Resize nw nh)
  with assms show ?thesis by (simp add: resize_live) (simp add: live_def)
next
  case Unmount
  with assms show ?thesis by simp
qed

lemma run_append: "run (xs @ ys) s = run ys (run xs s)"
  by (simp add: run_def)

lemma run_Cons: "run (ev # evs) s = run evs (step ev s)"
  by (simp add: run_def)

lemma run_Nil: "run [] s = s"
  by (simp add: run_def)

lemma run_live:
  assumes "live s" "Unmount \<notin> set evs"
  shows "live (run evs s) \<and> calls (run evs s) = calls s
       \<and> resizeListeners (window (run evs s)) = resizeListeners (window s)"
  using assms
proof (induction evs arbitrary: s)
  case Nil
  then show ?case by (simp add: run_def)
next
  case (Cons ev evs)
  from Cons.prems have ne: "ev \<noteq> Unmount" and rest: "Unmount \<notin> set evs" by auto
  from step_live [OF Cons.prems(1) ne] Cons.IH [of "step ev s", OF _ rest]
  show ?case by (simp add: run_def)
qed

lemma run_renders:
  assumes "live s"
  shows "live (run (replicate n Render) s)
       \<and> dimensions (fiber (run (replicate n Render) s)) = dimensions (fiber s)"
  using assms
proof (induction n arbitrary: s)
  case 0
  then show ?case by (simp add: run_def)
next
  case (Suc n)
  from Suc.prems have l: "live (render s)"
    and d: "dimensions (fiber (render s)) = dimensions (fiber s)"
    by (simp_all add: render_live live_def)
  from Suc.IH [OF l] d show ?case by (simp add: run_Cons)
qed

lemma step_dead:
  assumes "\<not> alive (fiber s)"
  shows "fiber (step ev s) = fiber s \<and> calls (step ev s) = calls s
       \<and> resizeListeners (window (step ev s)) = resizeListeners (window s)"
proof (cases ev)
  case Render
  with assms show ?thesis by (simp add: render_def)
next
  case (Resize nw nh)
  with assms show ?thesis
    by (simp add: resize_def Let_def fold_invoke handleResize_def setDimensions_def)
next
  case Unmount
  with assms show ?thesis by (simp add: unmount_def)
qed

lemma run_dead:
  assumes "\<not> alive (fiber s)"
  shows "fiber (run evs s) = fiber s \<and> calls (run evs s) = calls s
       \<and> resizeListeners (window (run evs s)) = resizeListeners (window s)"
  using assms
proof (induction evs arbitrary: s)
  case Nil
  then show ?case by (simp add: run_def)
next
  case (Cons ev evs)
  have st: "fiber (step ev s) = fiber s \<and> calls (step ev s) = calls s
       \<and> resizeListeners (window (step ev s)) = resizeListeners (window s)"
    by (rule step_dead [OF Cons.prems])
  with Cons.prems have "\<not> alive (fiber (step ev s))" by simp
  from Cons.IH [OF this] st show ?case by (simp add: run_def)
qed

lemma unmount_live:
  assumes "live s"
  shows "unmount s =
           s\<lparr>window := removeEventListener (Closure 0) (window s),
             calls := calls s @ [RemoveEventListener (Closure 0)],
             fiber := (fiber s)\<lparr>effectDeps := None, alive := False\<rparr>\<rparr>"
  using assms by (simp add: unmount_def Let_def live_def cleanup_def)

text \<open>
  C6. The first commit measures the window inside the effect, before the listener is
  registered and without any \<open>resize\<close> event: from then on a render returns the
  size of the window, 1000 by 600 in a window of that size, and further renders do not
  change it. (The value returned by the very first render is the 0 by 0 of C10.)
\<close>

theorem initial_measurement:
  "width (current (run [Render] (initial win))) = innerWidth win
   \<and> height (current (run [Render] (initial win))) = innerHeight win
   \<and> current (run (Render # replicate n Render) (initial win))
       = current (run [Render] (initial win))
   \<and> calls (run [Render] (initial win)) = [AddEventListener (Closure 0)]
   \<and> width (current (run [Render]
        (initial \<lparr>innerWidth = 1000, innerHeight = 600, resizeListeners = ls\<rparr>))) = 1000
   \<and> height (current (run [Render]
        (initial \<lparr>innerWidth = 1000, innerHeight = 600, resizeListeners = ls\<rparr>))) = 600"
proof -
  have one: "run [Render] (initial win) = render (initial win)" for win
    by (simp add: run_def)
  have "dimensions (fiber (run (replicate n Render) (render (initial win))))
          = dimensions (fiber (render (initial win)))"
    using run_renders [OF live_render_initial] by blast
  then have "current (run (Render # replicate n Render) (initial win))
          = current (run [Render] (initial win))"
    by (simp add: run_Cons run_Nil current_def)
  then show ?thesis
    by (simp add: one render_initial current_def useResponsive_def)
qed

text \<open>
  C7. From the first commit to the unmount, whatever renders and \<open>resize\<close> events
  occur, the hook has called \<open>addEventListener\<close> once and \<open>removeEventListener\<close>
  not at all, and its listener is registered once. The unmount calls
  \<open>removeEventListener\<close> once, with the same function, and leaves the window's
  listeners as they were before the hook was mounted. Whatever happens afterwards
  changes neither the cells of the hook nor the listeners, and no further call is made.
  Every step is a total function with no error result.
\<close>

theorem subscription_paired:
  assumes "Closure 0 \<notin> set (resizeListeners win)" and "Unmount \<notin> set evs"
  shows "calls (run (Render # evs) (initial win)) = [AddEventListener (Closure 0)]
       \<and> resizeListeners (window (run (Render # evs) (initial win)))
           = resizeListeners win @ [Closure 0]
       \<and> calls (run (Render # evs @ [Unmount]) (initial win))
           = [AddEventListener (Closure 0), RemoveEventListener (Closure 0)]
       \<and> resizeListeners (window (run (Render # evs @ [Unmount]) (initial win)))
           = resizeListeners win
       \<and> calls (run (Render # evs @ Unmount # evs') (initial win))
           = [AddEventListener (Closure 0), RemoveEventListener (Closure 0)]
       \<and> resizeListeners (window (run (Render # evs @ Unmount # evs') (initial win)))
           = resizeListeners win
       \<and> fiber (run (Render # evs @ Unmount # evs') (initial win))
           = fiber (run (Render # evs @ [Unmount]) (initial win))"
proof -
  let ?s0 = "render (initial win)"
  let ?s1 = "run evs ?s0"
  let ?s2 = "unmount ?s1"
  have l1: "live ?s1" and c1: "calls ?s1 = calls ?s0"
    and r1: "resizeListeners (window ?s1) = resizeListeners (window ?s0)"
    using run_live [OF live_render_initial assms(2)] by blast+
  have c0: "calls ?s0 = [AddEventListener (Closure 0)]"
    and r0: "resizeListeners (window ?s0) = resizeListeners win @ [Closure 0]"
    using assms(1) by (simp_all add: render_initial addEventListener_def)
  have c2: "calls ?s2 = [AddEventListener (Closure 0), RemoveEventListener (Closure 0)]"
    by (simp add: unmount_live [OF l1] c1 c0)
  have r2: "resizeListeners (window ?s2) = resizeListeners win"
    using assms(1)
    by (simp add: unmount_live [OF l1] removeEventListener_def r1 r0 remove1_append)
  have dead: "\<not> alive (fiber ?s2)"
    by (simp add: unmount_live [OF l1])
  have e1: "run (Render # evs) (initial win) = ?s1"
    by (simp add: run_Cons)
  have e2: "run (Render # evs @ [Unmount]) (initial win) = ?s2"
    by (simp add: run_Cons run_Nil run_append)
  have e3: "run (Render # evs @ Unmount # evs') (initial win) = run evs' ?s2"
    by (simp add: run_Cons run_append)
  from run_dead [OF dead, of evs'] show ?thesis
    by (simp only: e1 e2 e3 c1 c0 r1 r0 c2 r2)
qed

theorem subscription_paired_witness:
  "Closure 0 \<notin> set (resizeListeners \<lparr>innerWidth = 1000, innerHeight = 600, resizeListeners = [Foreign 7]\<rparr>)
   \<and> Unmount \<notin> set [Render, Resize 500 400, Render]
   \<and> calls (run [Render, Render, Resize 500 400, Render, Unmount, Resize 2000 900, Render, Unmount]
        (initial \<lparr>innerWidth = 1000, innerHeight = 600, resizeListeners = [Foreign 7]\<rparr>))
       = [AddEventListener (Closure 0), RemoveEventListener (Closure 0)]
   \<and> resizeListeners (window
        (run [Render, Render, Resize 500 400, Render, Unmount, Resize 2000 900, Render, Unmount]
          (initial \<lparr>innerWidth = 1000, innerHeight = 600, resizeListeners = [Foreign 7]\<rparr>)))
       = [Foreign 7]
   \<and> dimensions (fiber
        (run [Render, Render, Resize 500 400, Render, Unmount, Resize 2000 900, Render, Unmount]
          (initial \<lparr>innerWidth = 1000, innerHeight = 600, resizeListeners = [Foreign 7]\<rparr>)))
       = \<lparr>width = 500, height = 400\<rparr>"
proof -
  let ?win = "\<lparr>innerWidth = 1000, innerHeight = 600, resizeListeners = [Foreign 7]\<rparr>"
  have h1: "Closure 0 \<notin> set (resizeListeners ?win)" by simp
  have h2: "Unmount \<notin> set [Render, Resize 500 400, Render]" by simp
  have d: "dimensions (fiber (run [Render, Render, Resize 500 400, Render, Unmount] (initial ?win)))
             = \<lparr>width = 500, height = 400\<rparr>"
    by (simp add: run_def render_def unmount_def resize_def initial_def effect_def cleanup_def
        handleResize_def setDimensions_def addEventListener_def removeEventListener_def Let_def)
  from subscription_paired [OF h1 h2, of "[Resize 2000 900, Render, Unmount]"] d h1 h2
  show ?thesis by simp
qed

text \<open>
  C8. While the hook is mounted, a \<open>resize\<close> event stores the new width and the new
  height together. After the events 500, 2000, 100 the width is 500, then 2000, then
  100, and the breakpoint is mobile, then wide, then mobile.
\<close>

theorem resize_overwrites:
  "(Unmount \<notin> set evs \<longrightarrow>
      dimensions (fiber (run (Render # evs @ [Resize nw nh]) (initial win)))
        = \<lparr>width = nw, height = nh\<rparr>)
   \<and> width (current (run [Render, Resize 500 h1] (initial win))) = 500
   \<and> height (current (run [Render, Resize 500 h1] (initial win))) = h1
   \<and> breakpoint (current (run [Render, Resize 500 h1] (initial win))) = mobile
   \<and> width (current (run [Render, Resize 500 h1, Resize 2000 h2] (initial win))) = 2000
   \<and> height (current (run [Render, Resize 500 h1, Resize 2000 h2] (initial win))) = h2
   \<and> breakpoint (current (run [Render, Resize 500 h1, Resize 2000 h2] (initial win))) = wide
   \<and> width (current (run [Render, Resize 500 h1, Resize 2000 h2, Resize 100 h3] (initial win))) = 100
   \<and> height (current (run [Render, Resize 500 h1, Resize 2000 h2, Resize 100 h3] (initial win))) = h3
   \<and> breakpoint (current (run [Render, Resize 500 h1, Resize 2000 h2, Resize 100 h3] (initial win)))
       = mobile"
proof -
  have gen: "dimensions (fiber (run (Render # evs @ [Resize nw nh]) (initial win)))
        = \<lparr>width = nw, height = nh\<rparr>" if "Unmount \<notin> set evs" for evs nw nh
  proof -
    have "live (run evs (render (initial win)))"
      using run_live [OF live_render_initial that] by blast
    then show ?thesis
      by (simp add: run_Cons run_append resize_live) (simp add: run_def)
  qed
  have a: "dimensions (fiber (run [Render, Resize 500 h1] (initial win)))
             = \<lparr>width = 500, height = h1\<rparr>"
    using gen [of "[]" 500 h1] by simp
  have b: "dimensions (fiber (run [Render, Resize 500 h1, Resize 2000 h2] (initial win)))
             = \<lparr>width = 2000, height = h2\<rparr>"
    using gen [of "[Resize 500 h1]" 2000 h2] by simp
  have c: "dimensions (fiber (run [Render, Resize 500 h1, Resize 2000 h2, Resize 100 h3] (initial win)))
             = \<lparr>width = 100, height = h3\<rparr>"
    using gen [of "[Resize 500 h1, Resize 2000 h2]" 100 h3] by simp
  from gen [of evs nw nh] show ?thesis
    by (simp add: current_def a b c useResponsive_def)
qed

theorem resize_overwrites_witness:
  "Unmount \<notin> set [Resize 640 480, Render]
   \<and> dimensions (fiber (run (Render # [Resize 640 480, Render] @ [Resize 1300 700])
        (initial \<lparr>innerWidth = 1000, innerHeight = 600, resizeListeners = []\<rparr>)))
       = \<lparr>width = 1300, height = 700\<rparr>"
  using resize_overwrites [of "[Resize 640 480, Render]" 1300 700
      "\<lparr>innerWidth = 1000, innerHeight = 600, resizeListeners = []\<rparr>"]
  by simp

end
